theory Spec2Isabelle
  imports Complex_Main
begin

section \<open>Packet statistics of the flow graph (pcap\_stats.py)\<close>

text \<open>
  The module keeps, for every machine of the monitored network, a \<open>MachineNode\<close> with
  packet counts, packet lengths, per-peer frequencies and a \<open>TimeRecord\<close>; a
  \<open>FlowRecord\<close> maps addresses to nodes and \<open>analyze_pcap\<close> routes one decoded
  pcap record into it. Python objects are mutated in place; here every method takes
  \<open>self\<close> first and returns the updated object. Exceptions are values of \<open>error\<close>.
\<close>

subsection \<open>Exceptions\<close>

datatype error = TypeError | ValueError | StatisticsError

subsection \<open>TimeRecord\<close>

text \<open>
  The four fields start as \<open>None\<close> and later hold the time strings handed to
  \<open>update_sent\<close> and \<open>update_received\<close>.
\<close>

record TimeRecord =
  first_sent :: "string option"
  first_received :: "string option"
  last_sent :: "string option"
  last_received :: "string option"

definition TimeRecord_init :: TimeRecord where
  "TimeRecord_init =
     \<lparr>first_sent = None, first_received = None, last_sent = None, last_received = None\<rparr>"

text \<open>
  Python's truth value of a field that is \<open>None\<close> or a string: \<open>None\<close> and the empty
  string are false, every other string is true. The tests \<open>if not self.first_sent\<close> and
  \<open>if not self.first_received\<close> read it.
\<close>

definition truthy :: "string option \<Rightarrow> bool" where
  "truthy v = (case v of None \<Rightarrow> False | Some s \<Rightarrow> s \<noteq> [])"

definition update_sent :: "TimeRecord \<Rightarrow> string \<Rightarrow> TimeRecord" where
  "update_sent self t =
     (let self1 = (if \<not> truthy (first_sent self) then self\<lparr>first_sent := Some t\<rparr> else self)
      in self1\<lparr>last_sent := Some t\<rparr>)"

definition update_received :: "TimeRecord \<Rightarrow> string \<Rightarrow> TimeRecord" where
  "update_received self t =
     (let self1 = (if \<not> truthy (first_received self) then self\<lparr>first_received := Some t\<rparr>
                   else self)
      in self1\<lparr>last_received := Some t\<rparr>)"

text \<open>
  \<open>get_elapsed_time_sent\<close> parses both fields with
  \<open>datetime.strptime(_, '%Y-%m-%d %H:%M:%S.%f')\<close> and returns \<open>str(latest - first)\<close>.
  The two library functions are parameters: \<open>strptime\<close> gives the parsed point in
  time in microseconds, or the exception it raises on a string that does not match the
  format; \<open>str_timedelta\<close> renders a difference of microseconds. \<open>strptime\<close> accepts
  strings only: on a field that is still \<open>None\<close> the call raises \<open>TypeError\<close>. The
  first field is parsed before the last one is read.
\<close>

definition get_elapsed_time_sent ::
  "(string \<Rightarrow> error + int) \<Rightarrow> (int \<Rightarrow> string) \<Rightarrow> TimeRecord \<Rightarrow> error + string" where
  "get_elapsed_time_sent strptime str_timedelta self =
     (case first_sent self of
        None \<Rightarrow> Inl TypeError
      | Some f \<Rightarrow>
          (case strptime f of
             Inl e \<Rightarrow> Inl e
           | Inr first \<Rightarrow>
               (case last_sent self of
                  None \<Rightarrow> Inl TypeError
                | Some l \<Rightarrow>
                    (case strptime l of
                       Inl e \<Rightarrow> Inl e
                     | Inr latest \<Rightarrow> Inr (str_timedelta (latest - first))))))"

definition get_elapsed_time_received ::
  "(string \<Rightarrow> error + int) \<Rightarrow> (int \<Rightarrow> string) \<Rightarrow> TimeRecord \<Rightarrow> error + string" where
  "get_elapsed_time_received strptime str_timedelta self =
     (case first_received self of
        None \<Rightarrow> Inl TypeError
      | Some f \<Rightarrow>
          (case strptime f of
             Inl e \<Rightarrow> Inl e
           | Inr first \<Rightarrow>
               (case last_received self of
                  None \<Rightarrow> Inl TypeError
                | Some l \<Rightarrow>
                    (case strptime l of
                       Inl e \<Rightarrow> Inl e
                     | Inr latest \<Rightarrow> Inr (str_timedelta (latest - first))))))"

text \<open>A sequence of calls on one \<open>TimeRecord\<close>, applied from left to right.\<close>

datatype time_call = UpdateSent string | UpdateReceived string

fun time_call_apply :: "TimeRecord \<Rightarrow> time_call \<Rightarrow> TimeRecord" where
  "time_call_apply self (UpdateSent t) = update_sent self t"
| "time_call_apply self (UpdateReceived t) = update_received self t"

definition time_calls :: "TimeRecord \<Rightarrow> time_call list \<Rightarrow> TimeRecord" where
  "time_calls self cs = foldl time_call_apply self cs"

subsection \<open>Frequency tables\<close>

text \<open>
  \<open>machines_sent_to\<close> and \<open>machines_received_from\<close> are \<open>defaultdict(int)\<close>:
  a table from peer address to count, kept as a list of pairs with one pair per key.
  \<open>d[addr] += 1\<close> adds one to the count of a key that is present and inserts a
  missing key with count 1 (the default 0, plus one).
\<close>

type_synonym defaultdict_int = "(string \<times> int) list"

fun increment :: "defaultdict_int \<Rightarrow> string \<Rightarrow> defaultdict_int" where
  "increment [] addr = [(addr, 1)]"
| "increment ((k, c) # d) addr =
     (if k = addr then (k, c + 1) # d else (k, c) # increment d addr)"

text \<open>The count stored for a peer (0 for a peer that has no entry) and the sum of all counts.\<close>

definition frequency :: "defaultdict_int \<Rightarrow> string \<Rightarrow> int" where
  "frequency d addr = (case map_of d addr of None \<Rightarrow> 0 | Some c \<Rightarrow> c)"

definition total :: "defaultdict_int \<Rightarrow> int" where
  "total d = sum_list (map snd d)"

subsection \<open>Decoded pcap records\<close>

text \<open>
  A pcap record as \<open>analyze_pcap\<close> reads it after \<open>ast.literal_eval\<close>: a dict with
  the keys \<open>src_ip\<close>, \<open>dest_ip\<close>, \<open>length\<close>, \<open>date\<close> and \<open>time\<close>. Such a dict is not
  empty, hence true in a test \<open>if pcap\<close>; the default \<open>pcap=None\<close> is \<open>None\<close> of the
  option type.
\<close>

record pcap =
  src_ip :: string
  dest_ip :: string
  length_field :: int
  date :: string
  time :: string

text \<open>The string \<open>'%s %s' % (pcap['date'], pcap['time'])\<close>.\<close>

definition date_time :: "pcap \<Rightarrow> string" where
  "date_time p = date p @ '' '' @ time p"

subsection \<open>MachineNode\<close>

record MachineNode =
  machine_addr :: string
  num_packets :: int
  packet_lengths :: "int list"
  machines_sent_to :: defaultdict_int
  machines_received_from :: defaultdict_int
  time_record :: TimeRecord

definition MachineNode_init :: "string \<Rightarrow> MachineNode" where
  "MachineNode_init addr =
     \<lparr>machine_addr = addr, num_packets = 0, packet_lengths = [],
      machines_sent_to = [], machines_received_from = [],
      time_record = TimeRecord_init\<rparr>"

definition add_pcap_record ::
  "MachineNode \<Rightarrow> int \<Rightarrow> string \<Rightarrow> bool \<Rightarrow> pcap option \<Rightarrow> MachineNode" where
  "add_pcap_record self len addr receiving pcap =
     (let self1 = self\<lparr>num_packets := num_packets self + 1\<rparr>;
          self2 = self1\<lparr>packet_lengths := packet_lengths self1 @ [len]\<rparr>
      in if receiving then
           (let self3 = self2\<lparr>machines_received_from :=
                                 increment (machines_received_from self2) addr\<rparr>
            in case pcap of
                 None \<Rightarrow> self3
               | Some p \<Rightarrow>
                   self3\<lparr>time_record := update_received (time_record self3) (date_time p)\<rparr>)
         else
           (let self3 = self2\<lparr>machines_sent_to := increment (machines_sent_to self2) addr\<rparr>
            in case pcap of
                 None \<Rightarrow> self3
               | Some p \<Rightarrow>
                   self3\<lparr>time_record := update_sent (time_record self3) (date_time p)\<rparr>))"

text \<open>
  Modelled from the spec: \<open>statistics.mean\<close> of Python's standard library, which the
  module imports and which is not part of the repository's source. The spec describes
  it as the arithmetic mean over the samples, failing when there is no sample; the
  failure is the library's \<open>StatisticsError\<close>. The floating-point result is taken
  as the real number it approximates.
\<close>

definition statistics_mean :: "int list \<Rightarrow> error + real" where
  "statistics_mean xs =
     (if xs = [] then Inl StatisticsError
      else Inr (real_of_int (sum_list xs) / real (length xs)))"

text \<open>
  Modelled from the spec: \<open>statistics.stdev\<close> of Python's standard library, not part
  of the repository's source either. The spec describes it as the sample standard
  deviation with denominator \<open>n - 1\<close>, failing on fewer than two samples; the failure
  is again \<open>StatisticsError\<close>, and the result is taken as a real number.
\<close>

definition statistics_stdev :: "int list \<Rightarrow> error + real" where
  "statistics_stdev xs =
     (if length xs < 2 then Inl StatisticsError
      else
        (let m = real_of_int (sum_list xs) / real (length xs)
         in Inr (sqrt (sum_list (map (\<lambda>x. (real_of_int x - m)\<^sup>2) xs)
                        / real (length xs - 1)))))"

definition get_mean_packet_len :: "MachineNode \<Rightarrow> error + real" where
  "get_mean_packet_len self = statistics_mean (packet_lengths self)"

text \<open>
  \<open>get_packet_len_std_dev\<close> returns a float or, from its \<open>except\<close> branch, a
  string; it raises nothing.
\<close>

datatype float_or_str = Float real | Str string

definition get_packet_len_std_dev :: "MachineNode \<Rightarrow> float_or_str" where
  "get_packet_len_std_dev self =
     (case statistics_stdev (packet_lengths self) of
        Inr v \<Rightarrow> Float v
      | Inl e \<Rightarrow> Str ''Error retrieving standard deviation.'')"

definition get_flow_duration ::
  "(string \<Rightarrow> error + int) \<Rightarrow> (int \<Rightarrow> string) \<Rightarrow> MachineNode \<Rightarrow> string \<Rightarrow> error + string" where
  "get_flow_duration strptime str_timedelta self direction =
     (if direction = ''sent'' then get_elapsed_time_sent strptime str_timedelta (time_record self)
      else get_elapsed_time_received strptime str_timedelta (time_record self))"

text \<open>
  A sequence of \<open>add_pcap_record\<close> calls on one node; a call is
  \<open>(length, addr, receiving, pcap)\<close>.
\<close>

type_synonym record_call = "int \<times> string \<times> bool \<times> pcap option"

fun record_call_apply :: "MachineNode \<Rightarrow> record_call \<Rightarrow> MachineNode" where
  "record_call_apply self (len, addr, receiving, pcap) =
     add_pcap_record self len addr receiving pcap"

definition record_calls :: "MachineNode \<Rightarrow> record_call list \<Rightarrow> MachineNode" where
  "record_calls self cs = foldl record_call_apply self cs"

subsection \<open>FlowRecord\<close>

record FlowRecord =
  machines :: "string \<rightharpoonup> MachineNode"

definition FlowRecord_init :: FlowRecord where
  "FlowRecord_init = \<lparr>machines = Map.empty\<rparr>"

definition update ::
  "FlowRecord \<Rightarrow> string \<Rightarrow> bool \<Rightarrow> string \<Rightarrow> bool \<Rightarrow> int \<Rightarrow> pcap option \<Rightarrow> FlowRecord" where
  "update self src_addr s_in_net dest_addr d_in_net len pcap =
     (let self1 =
        (if s_in_net then
           (case machines self src_addr of
              None \<Rightarrow>
                (let node = MachineNode_init src_addr;
                     node1 = add_pcap_record node len dest_addr False pcap
                 in self\<lparr>machines := (machines self)(src_addr \<mapsto> node1)\<rparr>)
            | Some n \<Rightarrow>
                self\<lparr>machines :=
                  (machines self)(src_addr \<mapsto> add_pcap_record n len dest_addr False pcap)\<rparr>)
         else self)
      in
        (if d_in_net then
           (case machines self1 dest_addr of
              None \<Rightarrow>
                (let node = MachineNode_init dest_addr;
                     node1 = add_pcap_record node len src_addr True pcap
                 in self1\<lparr>machines := (machines self1)(dest_addr \<mapsto> node1)\<rparr>)
            | Some n \<Rightarrow>
                self1\<lparr>machines :=
                  (machines self1)(dest_addr \<mapsto> add_pcap_record n len src_addr True pcap)\<rparr>)
         else self1))"

text \<open>
  \<open>get_machine_node\<close> returns the node or \<open>None\<close>; the record is returned beside
  the result, as it is after the call.
\<close>

definition get_machine_node :: "FlowRecord \<Rightarrow> string \<Rightarrow> MachineNode option \<times> FlowRecord" where
  "get_machine_node self addr =
     (case machines self addr of
        None \<Rightarrow> (None, self)
      | Some n \<Rightarrow> (Some n, self))"

subsection \<open>analyze\_pcap\<close>

text \<open>
  \<open>network_machines\<close> is the module's global list. \<open>analyze_pcap\<close> first decodes
  \<open>body\<close> with \<open>ast.literal_eval\<close>; the model starts from the decoded record \<open>pcap\<close>
  and returns the \<open>flow\<close> object as the call leaves it. The arguments \<open>ch\<close>,
  \<open>method\<close> and \<open>properties\<close> are not used by the function.
\<close>

definition analyze_pcap :: "string list \<Rightarrow> pcap \<Rightarrow> FlowRecord \<Rightarrow> FlowRecord" where
  "analyze_pcap network_machines pcap flow =
     (if src_ip pcap \<in> set network_machines \<and> dest_ip pcap \<in> set network_machines then
        update flow (src_ip pcap) True (dest_ip pcap) True (length_field pcap) (Some pcap)
      else if src_ip pcap \<in> set network_machines then
        update flow (src_ip pcap) True (dest_ip pcap) False (length_field pcap) (Some pcap)
      else if dest_ip pcap \<in> set network_machines then
        update flow (src_ip pcap) False (dest_ip pcap) True (length_field pcap) (Some pcap)
      else flow)"

subsection \<open>The node an update works on\<close>

text \<open>
  Both branches of \<open>update\<close> call \<open>add_pcap_record\<close> on the node registered for the
  address when there is one, and on a new \<open>MachineNode(addr)\<close> otherwise. The
  properties below name that node.
\<close>

definition registered_or_new :: "FlowRecord \<Rightarrow> string \<Rightarrow> MachineNode" where
  "registered_or_new self addr =
     (case machines self addr of None \<Rightarrow> MachineNode_init addr | Some n \<Rightarrow> n)"

section \<open>Properties\<close>

subsection \<open>Frequency tables: one pair per key, counts add up\<close>

lemma total_increment: "total (increment d addr) = total d + 1"
  by (induction d) (auto simp: total_def)

lemma frequency_increment:
  "frequency (increment d addr) k = (if k = addr then frequency d addr + 1 else frequency d k)"
  by (induction d) (auto simp: frequency_def)

lemma keys_increment: "fst ` set (increment d addr) = insert addr (fst ` set d)"
  by (induction d addr rule: increment.induct) (simp_all add: insert_commute)

lemma distinct_increment:
  "distinct (map fst d) \<Longrightarrow> distinct (map fst (increment d addr))"
  by (induction d addr rule: increment.induct) (auto simp: keys_increment)

subsection \<open>The fields after add\_pcap\_record\<close>

lemma num_packets_add [simp]:
  "num_packets (add_pcap_record self len addr receiving pcap) = num_packets self + 1"
  by (simp add: add_pcap_record_def Let_def split: option.split)

lemma packet_lengths_add [simp]:
  "packet_lengths (add_pcap_record self len addr receiving pcap) = packet_lengths self @ [len]"
  by (simp add: add_pcap_record_def Let_def split: option.split)

lemma machines_sent_to_add [simp]:
  "machines_sent_to (add_pcap_record self len addr receiving pcap) =
     (if receiving then machines_sent_to self else increment (machines_sent_to self) addr)"
  by (simp add: add_pcap_record_def Let_def split: option.split)

lemma machines_received_from_add [simp]:
  "machines_received_from (add_pcap_record self len addr receiving pcap) =
     (if receiving then increment (machines_received_from self) addr
      else machines_received_from self)"
  by (simp add: add_pcap_record_def Let_def split: option.split)

lemma machine_addr_add [simp]:
  "machine_addr (add_pcap_record self len addr receiving pcap) = machine_addr self"
  by (simp add: add_pcap_record_def Let_def split: option.split)

lemma time_record_add [simp]:
  "time_record (add_pcap_record self len addr receiving pcap) =
     (case pcap of
        None \<Rightarrow> time_record self
      | Some p \<Rightarrow>
          if receiving then update_received (time_record self) (date_time p)
          else update_sent (time_record self) (date_time p))"
  by (simp add: add_pcap_record_def Let_def split: option.split)

lemma record_calls_Nil [simp]: "record_calls self [] = self"
  by (simp add: record_calls_def)

lemma record_calls_snoc [simp]:
  "record_calls self (cs @ [c]) = record_call_apply (record_calls self cs) c"
  by (simp add: record_calls_def)

lemma packet_lengths_record_calls:
  "packet_lengths (record_calls self cs) = packet_lengths self @ map fst cs"
proof (induction cs rule: rev_induct)
  case Nil
  show ?case by simp
next
  case (snoc c cs)
  obtain len addr receiving pcap where c: "c = (len, addr, receiving, pcap)"
    by (cases c)
  with snoc show ?case by simp
qed

lemma counts_add:
  assumes "num_packets self = int (length (packet_lengths self))"
    and "num_packets self = total (machines_sent_to self) + total (machines_received_from self)"
  shows "num_packets (add_pcap_record self len addr receiving pcap) =
           int (length (packet_lengths (add_pcap_record self len addr receiving pcap)))"
    and "num_packets (add_pcap_record self len addr receiving pcap) =
           total (machines_sent_to (add_pcap_record self len addr receiving pcap))
           + total (machines_received_from (add_pcap_record self len addr receiving pcap))"
  using assms by (simp_all add: total_increment)

lemma counts_record_calls:
  assumes "num_packets self = int (length (packet_lengths self))"
    and "num_packets self = total (machines_sent_to self) + total (machines_received_from self)"
  shows "num_packets (record_calls self cs) = int (length (packet_lengths (record_calls self cs)))
         \<and> num_packets (record_calls self cs) =
             total (machines_sent_to (record_calls self cs))
             + total (machines_received_from (record_calls self cs))"
proof (induction cs rule: rev_induct)
  case Nil
  from assms show ?case by simp
next
  case (snoc c cs)
  obtain len addr receiving pcap where c: "c = (len, addr, receiving, pcap)"
    by (cases c)
  from snoc counts_add [of "record_calls self cs" len addr receiving pcap]
  show ?case unfolding c by simp
qed

lemma distinct_keys_record_calls:
  "distinct (map fst (machines_sent_to self)) \<Longrightarrow>
   distinct (map fst (machines_received_from self)) \<Longrightarrow>
   distinct (map fst (machines_sent_to (record_calls self cs)))
   \<and> distinct (map fst (machines_received_from (record_calls self cs)))"
proof (induction cs rule: rev_induct)
  case Nil
  then show ?case by simp
next
  case (snoc c cs)
  obtain len addr receiving pcap where c: "c = (len, addr, receiving, pcap)"
    by (cases c)
  from snoc show ?case unfolding c by (simp add: distinct_increment)
qed


subsection \<open>update, branch by branch\<close>

lemma update_src_only:
  "update self src_addr True dest_addr False len pcap =
     self\<lparr>machines := (machines self)
       (src_addr \<mapsto> add_pcap_record (registered_or_new self src_addr) len dest_addr False pcap)\<rparr>"
  by (simp add: update_def registered_or_new_def Let_def split: option.split)

lemma update_dest_only:
  "update self src_addr False dest_addr True len pcap =
     self\<lparr>machines := (machines self)
       (dest_addr \<mapsto> add_pcap_record (registered_or_new self dest_addr) len src_addr True pcap)\<rparr>"
  by (simp add: update_def registered_or_new_def Let_def split: option.split)

lemma update_neither: "update self src_addr False dest_addr False len pcap = self"
  by (simp add: update_def)

lemma update_both:
  "update self src_addr True dest_addr True len pcap =
     update (update self src_addr True dest_addr False len pcap) src_addr False dest_addr True len pcap"
  by (simp add: update_def Let_def)

lemma update_both_distinct:
  assumes "src_addr \<noteq> dest_addr"
  shows "update self src_addr True dest_addr True len pcap =
     self\<lparr>machines := (machines self)
       (src_addr \<mapsto> add_pcap_record (registered_or_new self src_addr) len dest_addr False pcap,
        dest_addr \<mapsto> add_pcap_record (registered_or_new self dest_addr) len src_addr True pcap)\<rparr>"
  using assms
  by (simp add: update_both update_src_only update_dest_only registered_or_new_def)

lemma update_both_same:
  "update self addr True addr True len pcap =
     self\<lparr>machines := (machines self)
       (addr \<mapsto> add_pcap_record
                  (add_pcap_record (registered_or_new self addr) len addr False pcap)
                  len addr True pcap)\<rparr>"
  by (simp add: update_both update_src_only update_dest_only registered_or_new_def)

lemma update_lookup_src:
  assumes "s_in_net" and "\<not> (d_in_net \<and> src_addr = dest_addr)"
  shows "machines (update self src_addr s_in_net dest_addr d_in_net len pcap) src_addr =
           Some (add_pcap_record (registered_or_new self src_addr) len dest_addr False pcap)"
proof (cases d_in_net)
  case True
  with assms have "src_addr \<noteq> dest_addr" by simp
  with True assms(1) show ?thesis by (simp add: update_both_distinct)
next
  case False
  with assms(1) show ?thesis by (simp add: update_src_only)
qed

lemma update_lookup_dest:
  assumes "d_in_net" and "\<not> (s_in_net \<and> src_addr = dest_addr)"
  shows "machines (update self src_addr s_in_net dest_addr d_in_net len pcap) dest_addr =
           Some (add_pcap_record (registered_or_new self dest_addr) len src_addr True pcap)"
proof (cases s_in_net)
  case True
  with assms have "src_addr \<noteq> dest_addr" by simp
  with True assms(1) show ?thesis by (simp add: update_both_distinct)
next
  case False
  with assms(1) show ?thesis by (simp add: update_dest_only)
qed

lemma update_lookup_same:
  "machines (update self addr True addr True len pcap) addr =
     Some (add_pcap_record (add_pcap_record (registered_or_new self addr) len addr False pcap)
             len addr True pcap)"
  by (simp add: update_both_same)

lemma update_frame:
  "(\<not> s_in_net \<or> a \<noteq> src_addr) \<Longrightarrow> (\<not> d_in_net \<or> a \<noteq> dest_addr) \<Longrightarrow>
   machines (update self src_addr s_in_net dest_addr d_in_net len pcap) a = machines self a"
  by (cases s_in_net; cases d_in_net)
     (auto simp: update_both update_src_only update_dest_only update_neither)

subsection \<open>Sequences of calls on a TimeRecord\<close>

lemma time_calls_Nil [simp]: "time_calls self [] = self"
  by (simp add: time_calls_def)

lemma time_calls_Cons [simp]: "time_calls self (c # cs) = time_calls (time_call_apply self c) cs"
  by (simp add: time_calls_def)

lemma time_calls_snoc [simp]:
  "time_calls self (cs @ [c]) = time_call_apply (time_calls self cs) c"
  by (simp add: time_calls_def)

lemma first_sent_kept:
  "truthy (first_sent self) \<Longrightarrow> first_sent (time_call_apply self c) = first_sent self"
  by (cases c) (simp_all add: update_sent_def update_received_def Let_def)

lemma first_received_kept:
  "truthy (first_received self) \<Longrightarrow> first_received (time_call_apply self c) = first_received self"
  by (cases c) (simp_all add: update_sent_def update_received_def Let_def)

lemma first_sent_kept_calls:
  "truthy (first_sent self) \<Longrightarrow> first_sent (time_calls self cs) = first_sent self"
  by (induction cs arbitrary: self) (simp_all add: first_sent_kept)

lemma first_received_kept_calls:
  "truthy (first_received self) \<Longrightarrow> first_received (time_calls self cs) = first_received self"
  by (induction cs arbitrary: self) (simp_all add: first_received_kept)

lemma sent_untouched:
  "\<forall>t. UpdateSent t \<notin> set cs \<Longrightarrow>
   first_sent (time_calls self cs) = first_sent self \<and> last_sent (time_calls self cs) = last_sent self"
proof (induction cs arbitrary: self)
  case Nil
  show ?case by simp
next
  case (Cons c cs)
  then obtain t where c: "c = UpdateReceived t" by (cases c) auto
  from Cons.prems have "\<forall>t. UpdateSent t \<notin> set cs" by simp
  from Cons.IH [OF this, of "time_call_apply self c"] show ?case
    by (simp add: c update_received_def Let_def)
qed

lemma received_untouched:
  "\<forall>t. UpdateReceived t \<notin> set cs \<Longrightarrow>
   first_received (time_calls self cs) = first_received self
   \<and> last_received (time_calls self cs) = last_received self"
proof (induction cs arbitrary: self)
  case Nil
  show ?case by simp
next
  case (Cons c cs)
  then obtain t where c: "c = UpdateSent t" by (cases c) auto
  from Cons.prems have "\<forall>t. UpdateReceived t \<notin> set cs" by simp
  from Cons.IH [OF this, of "time_call_apply self c"] show ?case
    by (simp add: c update_sent_def Let_def)
qed

lemma sent_set_by_call:
  "first_sent (time_call_apply self (UpdateSent t)) \<noteq> None
   \<and> last_sent (time_call_apply self (UpdateSent t)) \<noteq> None"
  by (simp add: update_sent_def Let_def truthy_def split: option.split)

lemma sent_stays_set:
  "first_sent self \<noteq> None \<and> last_sent self \<noteq> None \<Longrightarrow>
   first_sent (time_call_apply self c) \<noteq> None \<and> last_sent (time_call_apply self c) \<noteq> None"
  by (cases c) (auto simp: update_sent_def update_received_def Let_def)

lemma sent_stays_set_calls:
  "first_sent self \<noteq> None \<and> last_sent self \<noteq> None \<Longrightarrow>
   first_sent (time_calls self cs) \<noteq> None \<and> last_sent (time_calls self cs) \<noteq> None"
proof (induction cs arbitrary: self)
  case Nil
  then show ?case by simp
next
  case (Cons c cs)
  from Cons.IH [OF sent_stays_set [OF Cons.prems, of c]] show ?case by simp
qed

lemma sent_set_after_call:
  "UpdateSent t \<in> set cs \<Longrightarrow>
   first_sent (time_calls self cs) \<noteq> None \<and> last_sent (time_calls self cs) \<noteq> None"
proof (induction cs arbitrary: self)
  case Nil
  then show ?case by simp
next
  case (Cons c cs)
  show ?case
  proof (cases "c = UpdateSent t")
    case True
    from sent_stays_set_calls [OF sent_set_by_call [of self t], of cs] True
    show ?thesis by simp
  next
    case False
    with Cons.prems have "UpdateSent t \<in> set cs" by simp
    from Cons.IH [OF this, of "time_call_apply self c"] show ?thesis by simp
  qed
qed

lemma received_set_by_call:
  "first_received (time_call_apply self (UpdateReceived t)) \<noteq> None
   \<and> last_received (time_call_apply self (UpdateReceived t)) \<noteq> None"
  by (simp add: update_received_def Let_def truthy_def split: option.split)

lemma received_stays_set:
  "first_received self \<noteq> None \<and> last_received self \<noteq> None \<Longrightarrow>
   first_received (time_call_apply self c) \<noteq> None
   \<and> last_received (time_call_apply self c) \<noteq> None"
  by (cases c) (auto simp: update_sent_def update_received_def Let_def)

lemma received_stays_set_calls:
  "first_received self \<noteq> None \<and> last_received self \<noteq> None \<Longrightarrow>
   first_received (time_calls self cs) \<noteq> None \<and> last_received (time_calls self cs) \<noteq> None"
proof (induction cs arbitrary: self)
  case Nil
  then show ?case by simp
next
  case (Cons c cs)
  from Cons.IH [OF received_stays_set [OF Cons.prems, of c]] show ?case by simp
qed

lemma received_set_after_call:
  "UpdateReceived t \<in> set cs \<Longrightarrow>
   first_received (time_calls self cs) \<noteq> None \<and> last_received (time_calls self cs) \<noteq> None"
proof (induction cs arbitrary: self)
  case Nil
  then show ?case by simp
next
  case (Cons c cs)
  show ?case
  proof (cases "c = UpdateReceived t")
    case True
    from received_stays_set_calls [OF received_set_by_call [of self t], of cs] True
    show ?thesis by simp
  next
    case False
    with Cons.prems have "UpdateReceived t \<in> set cs" by simp
    from Cons.IH [OF this, of "time_call_apply self c"] show ?thesis by simp
  qed
qed

lemma date_time_nonempty: "date_time p \<noteq> []"
  by (simp add: date_time_def)

lemma first_sent_truthy_after: "t \<noteq> [] \<Longrightarrow> truthy (first_sent (update_sent self t))"
  by (simp add: update_sent_def Let_def truthy_def)

lemma first_received_truthy_after:
  "t \<noteq> [] \<Longrightarrow> truthy (first_received (update_received self t))"
  by (simp add: update_received_def Let_def truthy_def)

section \<open>The claims\<close>

text \<open>
  Claim C1. \<open>update\<close> follows the truth table over \<open>(s_in_net, d_in_net)\<close>. With
  both true, the node of \<open>src_addr\<close> records a packet sent to \<open>dest_addr\<close> and the
  node of \<open>dest_addr\<close> records a packet received from \<open>src_addr\<close>; with only
  \<open>s_in_net\<close>, only the node of \<open>src_addr\<close> records a sent packet; with only
  \<open>d_in_net\<close>, only the node of \<open>dest_addr\<close> records a received packet; with
  neither, the record is unchanged. To record a sent packet is, field by field: one more
  in \<open>num_packets\<close>, the length appended to \<open>packet_lengths\<close>, one more in the count
  of the peer in \<open>machines_sent_to\<close> and no other count changed,
  \<open>machines_received_from\<close> unchanged, and the time of the pcap record, when one is
  given, passed to \<open>update_sent\<close>; a received packet likewise with the two tables and
  \<open>update_received\<close>. When both addresses are equal and in the network, the one node
  records the sent and then the received packet. The fields are counted from the
  registered node when the address is registered, and from a new node (no packets, empty
  tables, no times) otherwise; every entry of another address stays as it is.
\<close>

theorem update_truth_table:
  "(s_in_net \<and> d_in_net \<and> src_addr \<noteq> dest_addr \<longrightarrow>
      update self src_addr s_in_net dest_addr d_in_net len pcap =
        self\<lparr>machines := (machines self)
          (src_addr \<mapsto> add_pcap_record (registered_or_new self src_addr) len dest_addr False pcap,
           dest_addr \<mapsto> add_pcap_record (registered_or_new self dest_addr) len src_addr True pcap)\<rparr>)
   \<and> (s_in_net \<and> d_in_net \<and> src_addr = dest_addr \<longrightarrow>
      update self src_addr s_in_net dest_addr d_in_net len pcap =
        self\<lparr>machines := (machines self)
          (src_addr \<mapsto> add_pcap_record
                         (add_pcap_record (registered_or_new self src_addr) len dest_addr False pcap)
                         len src_addr True pcap)\<rparr>)
   \<and> (s_in_net \<and> \<not> d_in_net \<longrightarrow>
      update self src_addr s_in_net dest_addr d_in_net len pcap =
        self\<lparr>machines := (machines self)
          (src_addr \<mapsto> add_pcap_record (registered_or_new self src_addr) len dest_addr False pcap)\<rparr>)
   \<and> (\<not> s_in_net \<and> d_in_net \<longrightarrow>
      update self src_addr s_in_net dest_addr d_in_net len pcap =
        self\<lparr>machines := (machines self)
          (dest_addr \<mapsto> add_pcap_record (registered_or_new self dest_addr) len src_addr True pcap)\<rparr>)
   \<and> (\<not> s_in_net \<and> \<not> d_in_net \<longrightarrow>
      update self src_addr s_in_net dest_addr d_in_net len pcap = self)
   \<and> (s_in_net \<and> \<not> (d_in_net \<and> src_addr = dest_addr) \<longrightarrow>
      map_option machine_addr
          (machines (update self src_addr s_in_net dest_addr d_in_net len pcap) src_addr)
        = Some (machine_addr (registered_or_new self src_addr))
      \<and> map_option num_packets
          (machines (update self src_addr s_in_net dest_addr d_in_net len pcap) src_addr)
        = Some (num_packets (registered_or_new self src_addr) + 1)
      \<and> map_option packet_lengths
          (machines (update self src_addr s_in_net dest_addr d_in_net len pcap) src_addr)
        = Some (packet_lengths (registered_or_new self src_addr) @ [len])
      \<and> map_option (\<lambda>n. frequency (machines_sent_to n) k)
          (machines (update self src_addr s_in_net dest_addr d_in_net len pcap) src_addr)
        = Some (frequency (machines_sent_to (registered_or_new self src_addr)) k
                + (if k = dest_addr then 1 else 0))
      \<and> map_option machines_received_from
          (machines (update self src_addr s_in_net dest_addr d_in_net len pcap) src_addr)
        = Some (machines_received_from (registered_or_new self src_addr))
      \<and> map_option time_record
          (machines (update self src_addr s_in_net dest_addr d_in_net len pcap) src_addr)
        = Some (case pcap of
                  None \<Rightarrow> time_record (registered_or_new self src_addr)
                | Some p \<Rightarrow>
                    update_sent (time_record (registered_or_new self src_addr)) (date_time p)))
   \<and> (d_in_net \<and> \<not> (s_in_net \<and> src_addr = dest_addr) \<longrightarrow>
      map_option machine_addr
          (machines (update self src_addr s_in_net dest_addr d_in_net len pcap) dest_addr)
        = Some (machine_addr (registered_or_new self dest_addr))
      \<and> map_option num_packets
          (machines (update self src_addr s_in_net dest_addr d_in_net len pcap) dest_addr)
        = Some (num_packets (registered_or_new self dest_addr) + 1)
      \<and> map_option packet_lengths
          (machines (update self src_addr s_in_net dest_addr d_in_net len pcap) dest_addr)
        = Some (packet_lengths (registered_or_new self dest_addr) @ [len])
      \<and> map_option (\<lambda>n. frequency (machines_received_from n) k)
          (machines (update self src_addr s_in_net dest_addr d_in_net len pcap) dest_addr)
        = Some (frequency (machines_received_from (registered_or_new self dest_addr)) k
                + (if k = src_addr then 1 else 0))
      \<and> map_option machines_sent_to
          (machines (update self src_addr s_in_net dest_addr d_in_net len pcap) dest_addr)
        = Some (machines_sent_to (registered_or_new self dest_addr))
      \<and> map_option time_record
          (machines (update self src_addr s_in_net dest_addr d_in_net len pcap) dest_addr)
        = Some (case pcap of
                  None \<Rightarrow> time_record (registered_or_new self dest_addr)
                | Some p \<Rightarrow>
                    update_received (time_record (registered_or_new self dest_addr))
                      (date_time p)))
   \<and> (s_in_net \<and> d_in_net \<and> src_addr = dest_addr \<longrightarrow>
      map_option machine_addr
          (machines (update self src_addr s_in_net dest_addr d_in_net len pcap) src_addr)
        = Some (machine_addr (registered_or_new self src_addr))
      \<and> map_option num_packets
          (machines (update self src_addr s_in_net dest_addr d_in_net len pcap) src_addr)
        = Some (num_packets (registered_or_new self src_addr) + 2)
      \<and> map_option packet_lengths
          (machines (update self src_addr s_in_net dest_addr d_in_net len pcap) src_addr)
        = Some (packet_lengths (registered_or_new self src_addr) @ [len, len])
      \<and> map_option (\<lambda>n. frequency (machines_sent_to n) k)
          (machines (update self src_addr s_in_net dest_addr d_in_net len pcap) src_addr)
        = Some (frequency (machines_sent_to (registered_or_new self src_addr)) k
                + (if k = dest_addr then 1 else 0))
      \<and> map_option (\<lambda>n. frequency (machines_received_from n) k)
          (machines (update self src_addr s_in_net dest_addr d_in_net len pcap) src_addr)
        = Some (frequency (machines_received_from (registered_or_new self src_addr)) k
                + (if k = src_addr then 1 else 0))
      \<and> map_option time_record
          (machines (update self src_addr s_in_net dest_addr d_in_net len pcap) src_addr)
        = Some (case pcap of
                  None \<Rightarrow> time_record (registered_or_new self src_addr)
                | Some p \<Rightarrow>
                    update_received
                      (update_sent (time_record (registered_or_new self src_addr)) (date_time p))
                      (date_time p)))
   \<and> ((\<not> s_in_net \<or> a \<noteq> src_addr) \<and> (\<not> d_in_net \<or> a \<noteq> dest_addr) \<longrightarrow>
      machines (update self src_addr s_in_net dest_addr d_in_net len pcap) a = machines self a)
   \<and> (machines self a = None \<longrightarrow>
      registered_or_new self a =
        \<lparr>machine_addr = a, num_packets = 0, packet_lengths = [], machines_sent_to = [],
         machines_received_from = [],
         time_record = \<lparr>first_sent = None, first_received = None, last_sent = None,
                        last_received = None\<rparr>\<rparr>)
   \<and> (\<forall>n. machines self a = Some n \<longrightarrow> registered_or_new self a = n)"
proof -
  let ?u = "update self src_addr s_in_net dest_addr d_in_net len pcap"
  let ?s = "registered_or_new self src_addr"
  let ?d = "registered_or_new self dest_addr"
  have b1: "s_in_net \<and> d_in_net \<and> src_addr \<noteq> dest_addr \<longrightarrow>
      ?u = self\<lparr>machines := (machines self)
          (src_addr \<mapsto> add_pcap_record ?s len dest_addr False pcap,
           dest_addr \<mapsto> add_pcap_record ?d len src_addr True pcap)\<rparr>"
    using update_both_distinct [of src_addr dest_addr self len pcap] by simp
  have b2: "s_in_net \<and> d_in_net \<and> src_addr = dest_addr \<longrightarrow>
      ?u = self\<lparr>machines := (machines self)
          (src_addr \<mapsto> add_pcap_record (add_pcap_record ?s len dest_addr False pcap)
                         len src_addr True pcap)\<rparr>"
    by (auto simp: update_both_same)
  have b3: "s_in_net \<and> \<not> d_in_net \<longrightarrow>
      ?u = self\<lparr>machines := (machines self)
          (src_addr \<mapsto> add_pcap_record ?s len dest_addr False pcap)\<rparr>"
    by (simp add: update_src_only)
  have b4: "\<not> s_in_net \<and> d_in_net \<longrightarrow>
      ?u = self\<lparr>machines := (machines self)
          (dest_addr \<mapsto> add_pcap_record ?d len src_addr True pcap)\<rparr>"
    by (simp add: update_dest_only)
  have b5: "\<not> s_in_net \<and> \<not> d_in_net \<longrightarrow> ?u = self"
    by (simp add: update_neither)
  have src: "machines ?u src_addr = Some (add_pcap_record ?s len dest_addr False pcap)"
    if "s_in_net \<and> \<not> (d_in_net \<and> src_addr = dest_addr)"
    using that by (intro update_lookup_src) simp_all
  have fs: "s_in_net \<and> \<not> (d_in_net \<and> src_addr = dest_addr) \<longrightarrow>
      map_option machine_addr (machines ?u src_addr) = Some (machine_addr ?s)
      \<and> map_option num_packets (machines ?u src_addr) = Some (num_packets ?s + 1)
      \<and> map_option packet_lengths (machines ?u src_addr) = Some (packet_lengths ?s @ [len])
      \<and> map_option (\<lambda>n. frequency (machines_sent_to n) k) (machines ?u src_addr)
        = Some (frequency (machines_sent_to ?s) k + (if k = dest_addr then 1 else 0))
      \<and> map_option machines_received_from (machines ?u src_addr)
        = Some (machines_received_from ?s)
      \<and> map_option time_record (machines ?u src_addr)
        = Some (case pcap of
                  None \<Rightarrow> time_record ?s
                | Some p \<Rightarrow> update_sent (time_record ?s) (date_time p))"
    using src by (simp add: frequency_increment split: option.split)
  have dest: "machines ?u dest_addr = Some (add_pcap_record ?d len src_addr True pcap)"
    if "d_in_net \<and> \<not> (s_in_net \<and> src_addr = dest_addr)"
    using that by (intro update_lookup_dest) simp_all
  have fd: "d_in_net \<and> \<not> (s_in_net \<and> src_addr = dest_addr) \<longrightarrow>
      map_option machine_addr (machines ?u dest_addr) = Some (machine_addr ?d)
      \<and> map_option num_packets (machines ?u dest_addr) = Some (num_packets ?d + 1)
      \<and> map_option packet_lengths (machines ?u dest_addr) = Some (packet_lengths ?d @ [len])
      \<and> map_option (\<lambda>n. frequency (machines_received_from n) k) (machines ?u dest_addr)
        = Some (frequency (machines_received_from ?d) k + (if k = src_addr then 1 else 0))
      \<and> map_option machines_sent_to (machines ?u dest_addr) = Some (machines_sent_to ?d)
      \<and> map_option time_record (machines ?u dest_addr)
        = Some (case pcap of
                  None \<Rightarrow> time_record ?d
                | Some p \<Rightarrow> update_received (time_record ?d) (date_time p))"
    using dest by (simp add: frequency_increment split: option.split)
  have same: "machines ?u src_addr =
        Some (add_pcap_record (add_pcap_record ?s len dest_addr False pcap) len src_addr True pcap)"
    if "s_in_net \<and> d_in_net \<and> src_addr = dest_addr"
    using that by (auto simp: update_lookup_same)
  have fb: "s_in_net \<and> d_in_net \<and> src_addr = dest_addr \<longrightarrow>
      map_option machine_addr (machines ?u src_addr) = Some (machine_addr ?s)
      \<and> map_option num_packets (machines ?u src_addr) = Some (num_packets ?s + 2)
      \<and> map_option packet_lengths (machines ?u src_addr) = Some (packet_lengths ?s @ [len, len])
      \<and> map_option (\<lambda>n. frequency (machines_sent_to n) k) (machines ?u src_addr)
        = Some (frequency (machines_sent_to ?s) k + (if k = dest_addr then 1 else 0))
      \<and> map_option (\<lambda>n. frequency (machines_received_from n) k) (machines ?u src_addr)
        = Some (frequency (machines_received_from ?s) k + (if k = src_addr then 1 else 0))
      \<and> map_option time_record (machines ?u src_addr)
        = Some (case pcap of
                  None \<Rightarrow> time_record ?s
                | Some p \<Rightarrow>
                    update_received (update_sent (time_record ?s) (date_time p)) (date_time p))"
    using same by (simp add: frequency_increment split: option.split)
  have fr: "(\<not> s_in_net \<or> a \<noteq> src_addr) \<and> (\<not> d_in_net \<or> a \<noteq> dest_addr) \<longrightarrow>
      machines ?u a = machines self a"
    using update_frame [of s_in_net a src_addr d_in_net dest_addr self len pcap] by blast
  have nw: "machines self a = None \<longrightarrow>
      registered_or_new self a =
        \<lparr>machine_addr = a, num_packets = 0, packet_lengths = [], machines_sent_to = [],
         machines_received_from = [],
         time_record = \<lparr>first_sent = None, first_received = None, last_sent = None,
                        last_received = None\<rparr>\<rparr>"
    by (simp add: registered_or_new_def MachineNode_init_def TimeRecord_init_def)
  have ol: "\<forall>n. machines self a = Some n \<longrightarrow> registered_or_new self a = n"
    by (simp add: registered_or_new_def)
  from b1 b2 b3 b4 b5 fs fd fb fr nw ol show ?thesis
    by (intro conjI)
qed

text \<open>
  The table at concrete calls: both endpoints new, with a pcap record; both endpoints
  the same address; a source registered with 7 packets, sending outside the network;
  only the destination in the network; neither.
\<close>

theorem update_truth_table_witness:
  "map_option num_packets
      (machines (update FlowRecord_init ''10.0.0.1'' True ''10.0.0.2'' True 100
         (Some \<lparr>src_ip = ''10.0.0.1'', dest_ip = ''10.0.0.2'', length_field = 100,
                date = ''2016-06-22'', time = ''10:00:00.0''\<rparr>)) ''10.0.0.1'') = Some 1
   \<and> map_option packet_lengths
      (machines (update FlowRecord_init ''10.0.0.1'' True ''10.0.0.2'' True 100
         (Some \<lparr>src_ip = ''10.0.0.1'', dest_ip = ''10.0.0.2'', length_field = 100,
                date = ''2016-06-22'', time = ''10:00:00.0''\<rparr>)) ''10.0.0.1'') = Some [100]
   \<and> map_option (\<lambda>n. frequency (machines_sent_to n) ''10.0.0.2'')
      (machines (update FlowRecord_init ''10.0.0.1'' True ''10.0.0.2'' True 100
         (Some \<lparr>src_ip = ''10.0.0.1'', dest_ip = ''10.0.0.2'', length_field = 100,
                date = ''2016-06-22'', time = ''10:00:00.0''\<rparr>)) ''10.0.0.1'') = Some 1
   \<and> map_option (\<lambda>n. frequency (machines_received_from n) ''10.0.0.1'')
      (machines (update FlowRecord_init ''10.0.0.1'' True ''10.0.0.2'' True 100
         (Some \<lparr>src_ip = ''10.0.0.1'', dest_ip = ''10.0.0.2'', length_field = 100,
                date = ''2016-06-22'', time = ''10:00:00.0''\<rparr>)) ''10.0.0.2'') = Some 1
   \<and> map_option (\<lambda>n. last_sent (time_record n))
      (machines (update FlowRecord_init ''10.0.0.1'' True ''10.0.0.2'' True 100
         (Some \<lparr>src_ip = ''10.0.0.1'', dest_ip = ''10.0.0.2'', length_field = 100,
                date = ''2016-06-22'', time = ''10:00:00.0''\<rparr>)) ''10.0.0.1'')
       = Some (Some ''2016-06-22 10:00:00.0'')
   \<and> map_option num_packets
      (machines (update FlowRecord_init ''10.0.0.1'' True ''10.0.0.1'' True 100 None)
         ''10.0.0.1'') = Some 2
   \<and> map_option num_packets
      (machines
         (update \<lparr>machines = [''10.0.0.1'' \<mapsto> MachineNode_init ''10.0.0.1''\<lparr>num_packets := 7\<rparr>]\<rparr>
            ''10.0.0.1'' True ''8.8.8.8'' False 100 None) ''10.0.0.1'') = Some 8
   \<and> machines
         (update \<lparr>machines = [''10.0.0.1'' \<mapsto> MachineNode_init ''10.0.0.1''\<lparr>num_packets := 7\<rparr>]\<rparr>
            ''10.0.0.1'' True ''8.8.8.8'' False 100 None) ''8.8.8.8'' = None
   \<and> map_option packet_lengths
      (machines (update FlowRecord_init ''8.8.8.8'' False ''10.0.0.2'' True 60 None)
         ''10.0.0.2'') = Some [60]
   \<and> machines (update FlowRecord_init ''8.8.8.8'' False ''10.0.0.2'' True 60 None) ''8.8.8.8''
       = None
   \<and> update FlowRecord_init ''8.8.8.8'' False ''9.9.9.9'' False 100 None = FlowRecord_init"
proof -
  let ?p = "\<lparr>src_ip = ''10.0.0.1'', dest_ip = ''10.0.0.2'', length_field = 100,
             date = ''2016-06-22'', time = ''10:00:00.0''\<rparr>"
  let ?reg = "\<lparr>machines = [''10.0.0.1'' \<mapsto> MachineNode_init ''10.0.0.1''\<lparr>num_packets := 7\<rparr>]\<rparr>"
  have fresh: "registered_or_new FlowRecord_init x = MachineNode_init x" for x
    by (simp add: registered_or_new_def FlowRecord_init_def)
  have init: "num_packets (MachineNode_init x) = 0" "packet_lengths (MachineNode_init x) = []"
    "machines_sent_to (MachineNode_init x) = []" "machines_received_from (MachineNode_init x) = []"
    "time_record (MachineNode_init x) = TimeRecord_init" for x
    by (simp_all add: MachineNode_init_def)
  have empty: "machines FlowRecord_init x = None" for x
    by (simp add: FlowRecord_init_def)
  have both_src: "map_option num_packets
        (machines (update FlowRecord_init ''10.0.0.1'' True ''10.0.0.2'' True 100 (Some ?p))
           ''10.0.0.1'') = Some 1
      \<and> map_option packet_lengths
        (machines (update FlowRecord_init ''10.0.0.1'' True ''10.0.0.2'' True 100 (Some ?p))
           ''10.0.0.1'') = Some [100]
      \<and> map_option (\<lambda>n. frequency (machines_sent_to n) ''10.0.0.2'')
        (machines (update FlowRecord_init ''10.0.0.1'' True ''10.0.0.2'' True 100 (Some ?p))
           ''10.0.0.1'') = Some 1
      \<and> map_option (\<lambda>n. last_sent (time_record n))
        (machines (update FlowRecord_init ''10.0.0.1'' True ''10.0.0.2'' True 100 (Some ?p))
           ''10.0.0.1'') = Some (Some ''2016-06-22 10:00:00.0'')"
    using update_truth_table [where s_in_net = True and d_in_net = True
        and src_addr = "''10.0.0.1''" and dest_addr = "''10.0.0.2''" and self = FlowRecord_init
        and len = 100 and pcap = "Some ?p" and k = "''10.0.0.2''"]
    by (auto simp: fresh init frequency_def date_time_def update_sent_def Let_def)
  have both_dest: "map_option (\<lambda>n. frequency (machines_received_from n) ''10.0.0.1'')
        (machines (update FlowRecord_init ''10.0.0.1'' True ''10.0.0.2'' True 100 (Some ?p))
           ''10.0.0.2'') = Some 1"
    using update_truth_table [where s_in_net = True and d_in_net = True
        and src_addr = "''10.0.0.1''" and dest_addr = "''10.0.0.2''" and self = FlowRecord_init
        and len = 100 and pcap = "Some ?p" and k = "''10.0.0.1''"]
    by (simp add: fresh init frequency_def)
  have same: "map_option num_packets
        (machines (update FlowRecord_init ''10.0.0.1'' True ''10.0.0.1'' True 100 None)
           ''10.0.0.1'') = Some 2"
    using update_truth_table [where s_in_net = True and d_in_net = True
        and src_addr = "''10.0.0.1''" and dest_addr = "''10.0.0.1''" and self = FlowRecord_init
        and len = 100 and pcap = None]
    by (simp add: fresh init)
  have reg: "map_option num_packets
        (machines (update ?reg ''10.0.0.1'' True ''8.8.8.8'' False 100 None) ''10.0.0.1'') = Some 8
      \<and> machines (update ?reg ''10.0.0.1'' True ''8.8.8.8'' False 100 None) ''8.8.8.8'' = None"
    using update_truth_table [where s_in_net = True and d_in_net = False
        and src_addr = "''10.0.0.1''" and dest_addr = "''8.8.8.8''" and self = ?reg
        and len = 100 and pcap = None and a = "''8.8.8.8''"]
    by (simp add: registered_or_new_def)
  have dest_only: "map_option packet_lengths
        (machines (update FlowRecord_init ''8.8.8.8'' False ''10.0.0.2'' True 60 None)
           ''10.0.0.2'') = Some [60]
      \<and> machines (update FlowRecord_init ''8.8.8.8'' False ''10.0.0.2'' True 60 None) ''8.8.8.8''
          = None"
    using update_truth_table [where s_in_net = False and d_in_net = True
        and src_addr = "''8.8.8.8''" and dest_addr = "''10.0.0.2''" and self = FlowRecord_init
        and len = 60 and pcap = None and a = "''8.8.8.8''"]
    by (simp add: fresh init empty)
  have neither: "update FlowRecord_init ''8.8.8.8'' False ''9.9.9.9'' False 100 None
                   = FlowRecord_init"
    using update_truth_table [where s_in_net = False and d_in_net = False
        and src_addr = "''8.8.8.8''" and dest_addr = "''9.9.9.9''" and self = FlowRecord_init
        and len = 100 and pcap = None]
    by simp
  from both_src both_dest same reg dest_only neither show ?thesis by (intro conjI) simp_all
qed

text \<open>
  Claim C2. For every node reached from a freshly created \<open>MachineNode\<close> by any
  sequence of \<open>add_pcap_record\<close> calls, \<open>num_packets\<close> equals the length of
  \<open>packet_lengths\<close> and equals the sum of all counts in \<open>machines_sent_to\<close> plus
  the sum of all counts in \<open>machines_received_from\<close>.
\<close>

theorem packet_count_invariant:
  "num_packets (record_calls (MachineNode_init a) cs)
     = int (length (packet_lengths (record_calls (MachineNode_init a) cs)))
   \<and> num_packets (record_calls (MachineNode_init a) cs)
     = total (machines_sent_to (record_calls (MachineNode_init a) cs))
       + total (machines_received_from (record_calls (MachineNode_init a) cs))"
  by (rule counts_record_calls) (simp_all add: MachineNode_init_def total_def)

text \<open>
  Claim C3. For every decoded pcap record, \<open>analyze_pcap\<close> leaves the flow record
  exactly as the single call \<open>update\<close> with the two membership tests
  \<open>src_ip \<in> network_machines\<close> and \<open>dest_ip \<in> network_machines\<close> passed as
  \<open>s_in_net\<close> and \<open>d_in_net\<close>: the four branches of \<open>analyze_pcap\<close> add nothing to
  passing the two booleans through.
\<close>

theorem analyze_pcap_passes_membership:
  "analyze_pcap network_machines pcap flow =
     update flow (src_ip pcap) (src_ip pcap \<in> set network_machines)
       (dest_ip pcap) (dest_ip pcap \<in> set network_machines) (length_field pcap) (Some pcap)"
  by (simp add: analyze_pcap_def update_neither)

text \<open>
  Claim C4. \<open>get_packet_len_std_dev\<close> returns the sample standard deviation, with
  denominator \<open>n - 1\<close>, of \<open>packet_lengths\<close> when the node holds at least two lengths.
  With fewer than two it returns the string
  \<open>'Error retrieving standard deviation.'\<close>: a returned value that is no number, and
  no exception (the function has no failing result at all).
\<close>

theorem std_dev_or_message:
  "(length (packet_lengths self) < 2 \<longrightarrow>
      get_packet_len_std_dev self = Str ''Error retrieving standard deviation.'')
   \<and> (2 \<le> length (packet_lengths self) \<longrightarrow>
      get_packet_len_std_dev self =
        Float (sqrt ((\<Sum>x\<leftarrow>packet_lengths self.
                        (real_of_int x
                         - real_of_int (sum_list (packet_lengths self))
                           / real (length (packet_lengths self)))\<^sup>2)
                     / real (length (packet_lengths self) - 1))))"
  by (simp add: get_packet_len_std_dev_def statistics_stdev_def Let_def)

text \<open>A node with the lengths 0, 3, 6 (deviation 3) and a node with one length.\<close>

theorem std_dev_or_message_witness:
  "length (packet_lengths (record_calls (MachineNode_init ''10.0.0.1'')
       [(0, ''10.0.0.2'', False, None), (3, ''10.0.0.2'', True, None),
        (6, ''10.0.0.3'', False, None)])) = 3
   \<and> get_packet_len_std_dev (record_calls (MachineNode_init ''10.0.0.1'')
       [(0, ''10.0.0.2'', False, None), (3, ''10.0.0.2'', True, None),
        (6, ''10.0.0.3'', False, None)]) = Float 3
   \<and> length (packet_lengths (record_calls (MachineNode_init ''10.0.0.1'')
       [(7, ''10.0.0.2'', False, None)])) = 1
   \<and> get_packet_len_std_dev (record_calls (MachineNode_init ''10.0.0.1'')
       [(7, ''10.0.0.2'', False, None)]) = Str ''Error retrieving standard deviation.''"
proof -
  let ?n3 = "record_calls (MachineNode_init ''10.0.0.1'')
       [(0, ''10.0.0.2'', False, None), (3, ''10.0.0.2'', True, None),
        (6, ''10.0.0.3'', False, None)]"
  let ?n1 = "record_calls (MachineNode_init ''10.0.0.1'') [(7, ''10.0.0.2'', False, None)]"
  have l3: "packet_lengths ?n3 = [0, 3, 6]"
    by (simp add: packet_lengths_record_calls MachineNode_init_def)
  have l1: "packet_lengths ?n1 = [7]"
    by (simp add: packet_lengths_record_calls MachineNode_init_def)
  have s: "sqrt 9 = 3" by (simp add: real_sqrt_unique)
  from std_dev_or_message [of ?n3] l3 s have "get_packet_len_std_dev ?n3 = Float 3"
    by (simp add: power2_eq_square)
  moreover from std_dev_or_message [of ?n1] l1
  have "get_packet_len_std_dev ?n1 = Str ''Error retrieving standard deviation.''"
    by simp
  ultimately show ?thesis using l3 l1 by simp
qed

text \<open>
  Claim C5. On a \<open>TimeRecord\<close> on which \<open>update_sent\<close> has never been called,
  \<open>get_elapsed_time_sent\<close> fails: \<open>strptime\<close> is handed \<open>None\<close> and raises
  \<open>TypeError\<close>. After a call of \<open>update_sent\<close> both sent fields are set, and when
  the two stored strings parse, the result is the rendered difference
  \<open>latest - first\<close> of the parsed \<open>last_sent\<close> and \<open>first_sent\<close>, whatever its
  sign. The same holds for \<open>get_elapsed_time_received\<close> and \<open>update_received\<close>.
\<close>

theorem elapsed_time:
  "((\<forall>t. UpdateSent t \<notin> set cs) \<longrightarrow>
      get_elapsed_time_sent strptime str_timedelta (time_calls TimeRecord_init cs) = Inl TypeError)
   \<and> ((\<forall>t. UpdateReceived t \<notin> set cs) \<longrightarrow>
      get_elapsed_time_received strptime str_timedelta (time_calls TimeRecord_init cs)
        = Inl TypeError)
   \<and> (UpdateSent t \<in> set cs \<longrightarrow>
        first_sent (time_calls TimeRecord_init cs) \<noteq> None
        \<and> last_sent (time_calls TimeRecord_init cs) \<noteq> None)
   \<and> (UpdateReceived t \<in> set cs \<longrightarrow>
        first_received (time_calls TimeRecord_init cs) \<noteq> None
        \<and> last_received (time_calls TimeRecord_init cs) \<noteq> None)
   \<and> (first_sent self = Some f \<and> last_sent self = Some l
        \<and> strptime f = Inr first \<and> strptime l = Inr latest \<longrightarrow>
      get_elapsed_time_sent strptime str_timedelta self = Inr (str_timedelta (latest - first)))
   \<and> (first_received self = Some f \<and> last_received self = Some l
        \<and> strptime f = Inr first \<and> strptime l = Inr latest \<longrightarrow>
      get_elapsed_time_received strptime str_timedelta self
        = Inr (str_timedelta (latest - first)))"
proof (intro conjI impI)
  assume "\<forall>t. UpdateSent t \<notin> set cs"
  from sent_untouched [OF this, of TimeRecord_init]
  show "get_elapsed_time_sent strptime str_timedelta (time_calls TimeRecord_init cs) = Inl TypeError"
    by (simp add: get_elapsed_time_sent_def TimeRecord_init_def)
next
  assume "\<forall>t. UpdateReceived t \<notin> set cs"
  from received_untouched [OF this, of TimeRecord_init]
  show "get_elapsed_time_received strptime str_timedelta (time_calls TimeRecord_init cs)
          = Inl TypeError"
    by (simp add: get_elapsed_time_received_def TimeRecord_init_def)
next
  assume "UpdateSent t \<in> set cs"
  from sent_set_after_call [OF this]
  show "first_sent (time_calls TimeRecord_init cs) \<noteq> None"
    and "last_sent (time_calls TimeRecord_init cs) \<noteq> None" by simp_all
next
  assume "UpdateReceived t \<in> set cs"
  from received_set_after_call [OF this]
  show "first_received (time_calls TimeRecord_init cs) \<noteq> None"
    and "last_received (time_calls TimeRecord_init cs) \<noteq> None" by simp_all
next
  assume "first_sent self = Some f \<and> last_sent self = Some l
        \<and> strptime f = Inr first \<and> strptime l = Inr latest"
  then show "get_elapsed_time_sent strptime str_timedelta self
               = Inr (str_timedelta (latest - first))"
    by (simp add: get_elapsed_time_sent_def)
next
  assume "first_received self = Some f \<and> last_received self = Some l
        \<and> strptime f = Inr first \<and> strptime l = Inr latest"
  then show "get_elapsed_time_received strptime str_timedelta self
               = Inr (str_timedelta (latest - first))"
    by (simp add: get_elapsed_time_received_def)
qed

text \<open>
  With a parser that knows two time strings, 1.5 seconds apart, and a rendering that
  shows the sign: no sent update gives \<open>TypeError\<close>; two sent updates, the later time
  first, give a negative difference; likewise for the received direction.
\<close>

theorem elapsed_time_witness:
  "get_elapsed_time_sent
     (\<lambda>s. if s = ''2016-06-22 10:00:00.0'' then Inr 0
           else if s = ''2016-06-22 10:00:01.5'' then Inr 1500000 else Inl ValueError)
     (\<lambda>d. if d < 0 then ''-'' else ''+'')
     (time_calls TimeRecord_init [UpdateReceived ''2016-06-22 10:00:00.0'']) = Inl TypeError
   \<and> get_elapsed_time_received
     (\<lambda>s. if s = ''2016-06-22 10:00:00.0'' then Inr 0
           else if s = ''2016-06-22 10:00:01.5'' then Inr 1500000 else Inl ValueError)
     (\<lambda>d. if d < 0 then ''-'' else ''+'')
     (time_calls TimeRecord_init [UpdateSent ''2016-06-22 10:00:00.0'']) = Inl TypeError
   \<and> first_sent (time_calls TimeRecord_init [UpdateSent ''2016-06-22 10:00:00.0'']) \<noteq> None
   \<and> first_received (time_calls TimeRecord_init [UpdateReceived ''2016-06-22 10:00:00.0''])
       \<noteq> None
   \<and> get_elapsed_time_sent
     (\<lambda>s. if s = ''2016-06-22 10:00:00.0'' then Inr 0
           else if s = ''2016-06-22 10:00:01.5'' then Inr 1500000 else Inl ValueError)
     (\<lambda>d. if d < 0 then ''-'' else ''+'')
     (time_calls TimeRecord_init
        [UpdateSent ''2016-06-22 10:00:01.5'', UpdateSent ''2016-06-22 10:00:00.0'']) = Inr ''-''
   \<and> get_elapsed_time_received
     (\<lambda>s. if s = ''2016-06-22 10:00:00.0'' then Inr 0
           else if s = ''2016-06-22 10:00:01.5'' then Inr 1500000 else Inl ValueError)
     (\<lambda>d. if d < 0 then ''-'' else ''+'')
     (time_calls TimeRecord_init
        [UpdateReceived ''2016-06-22 10:00:00.0'', UpdateReceived ''2016-06-22 10:00:01.5''])
       = Inr ''+''"
proof -
  let ?P = "\<lambda>s. if s = ''2016-06-22 10:00:00.0'' then Inr 0
           else if s = ''2016-06-22 10:00:01.5'' then Inr (1500000 :: int)
           else (Inl ValueError :: error + int)"
  let ?S = "\<lambda>d :: int. if d < 0 then ''-'' else ''+''"
  let ?t0 = "''2016-06-22 10:00:00.0''"
  let ?t1 = "''2016-06-22 10:00:01.5''"
  let ?rev_order = "time_calls TimeRecord_init [UpdateSent ?t1, UpdateSent ?t0]"
  let ?fwd_order = "time_calls TimeRecord_init [UpdateReceived ?t0, UpdateReceived ?t1]"
  have out_of_order: "first_sent ?rev_order = Some ?t1 \<and> last_sent ?rev_order = Some ?t0"
    by (simp add: update_sent_def TimeRecord_init_def truthy_def Let_def)
  have in_order: "first_received ?fwd_order = Some ?t0 \<and> last_received ?fwd_order = Some ?t1"
    by (simp add: update_received_def TimeRecord_init_def truthy_def Let_def)
  have "get_elapsed_time_sent ?P ?S (time_calls TimeRecord_init [UpdateReceived ?t0])
          = Inl TypeError"
    using elapsed_time [where cs = "[UpdateReceived ?t0]" and strptime = ?P
        and str_timedelta = ?S]
    by simp
  moreover have "get_elapsed_time_received ?P ?S (time_calls TimeRecord_init [UpdateSent ?t0])
          = Inl TypeError"
    using elapsed_time [where cs = "[UpdateSent ?t0]" and strptime = ?P and str_timedelta = ?S]
    by simp
  moreover have "first_sent (time_calls TimeRecord_init [UpdateSent ?t0]) \<noteq> None"
    using elapsed_time [where cs = "[UpdateSent ?t0]" and t = ?t0] by simp
  moreover have "first_received (time_calls TimeRecord_init [UpdateReceived ?t0]) \<noteq> None"
    using elapsed_time [where cs = "[UpdateReceived ?t0]" and t = ?t0] by simp
  moreover have "get_elapsed_time_sent ?P ?S ?rev_order = Inr ''-''"
    using out_of_order elapsed_time [where self = ?rev_order and f = ?t1 and l = ?t0 and strptime = ?P
        and str_timedelta = ?S and first = 1500000 and latest = 0]
    by simp
  moreover have "get_elapsed_time_received ?P ?S ?fwd_order = Inr ''+''"
    using in_order elapsed_time [where self = ?fwd_order and f = ?t0 and l = ?t1 and strptime = ?P
        and str_timedelta = ?S and first = 0 and latest = 1500000]
    by simp
  ultimately show ?thesis by (intro conjI)
qed

text \<open>
  Claim C6. Timestamps are the strings \<open>'%s %s' % (date, time)\<close> that
  \<open>add_pcap_record\<close> builds, which are never empty. Once a call of \<open>update_sent\<close>
  (\<open>update_received\<close>) with a timestamp has run, \<open>first_sent\<close>
  (\<open>first_received\<close>) is changed by no later call, whatever the later calls and their
  order in time; on a record whose field is still \<open>None\<close> that call sets it. Every
  \<open>update_sent\<close> (\<open>update_received\<close>) overwrites \<open>last_sent\<close>
  (\<open>last_received\<close>) with its argument, whatever the value before.
\<close>

theorem first_kept_last_overwritten:
  "(t \<noteq> [] \<longrightarrow>
      first_sent (time_calls (update_sent self t) cs) = first_sent (update_sent self t))
   \<and> (t \<noteq> [] \<longrightarrow>
      first_received (time_calls (update_received self t) cs)
        = first_received (update_received self t))
   \<and> (t \<noteq> [] \<longrightarrow>
      first_sent (time_calls TimeRecord_init (before @ UpdateSent t # cs))
        = first_sent (time_calls TimeRecord_init (before @ [UpdateSent t])))
   \<and> (t \<noteq> [] \<longrightarrow>
      first_received (time_calls TimeRecord_init (before @ UpdateReceived t # cs))
        = first_received (time_calls TimeRecord_init (before @ [UpdateReceived t])))
   \<and> (first_sent self = None \<longrightarrow> first_sent (update_sent self t) = Some t)
   \<and> (first_received self = None \<longrightarrow> first_received (update_received self t) = Some t)
   \<and> last_sent (update_sent self t) = Some t
   \<and> last_received (update_received self t) = Some t
   \<and> date_time p \<noteq> []"
proof -
  have app: "\<And>s xs ys. time_calls s (xs @ ys) = time_calls (time_calls s xs) ys"
    by (simp add: time_calls_def)
  have s: "t \<noteq> [] \<Longrightarrow>
      first_sent (time_calls (update_sent r t) cs) = first_sent (update_sent r t)" for r
    by (rule first_sent_kept_calls) (rule first_sent_truthy_after)
  have r: "t \<noteq> [] \<Longrightarrow>
      first_received (time_calls (update_received r t) cs) = first_received (update_received r t)"
    for r
    by (rule first_received_kept_calls) (rule first_received_truthy_after)
  show ?thesis
    using s [of self] r [of self] s [of "time_calls TimeRecord_init before"]
      r [of "time_calls TimeRecord_init before"]
    by (simp add: app date_time_nonempty)
       (simp add: update_sent_def update_received_def Let_def truthy_def)
qed

text \<open>
  A first update at 10:00:00 followed by updates at 09:00:00 and 11:00:00: the first
  field stays at 10:00:00, the last field takes the earlier time 09:00:00.
\<close>

theorem first_kept_last_overwritten_witness:
  "first_sent (time_calls TimeRecord_init
       [UpdateSent ''2016-06-22 10:00:00.0'', UpdateSent ''2016-06-22 09:00:00.0'',
        UpdateReceived ''2016-06-22 11:00:00.0'']) = Some ''2016-06-22 10:00:00.0''
   \<and> first_received (time_calls TimeRecord_init
       [UpdateReceived ''2016-06-22 10:00:00.0'', UpdateSent ''2016-06-22 09:00:00.0'',
        UpdateReceived ''2016-06-22 11:00:00.0'']) = Some ''2016-06-22 10:00:00.0''
   \<and> last_sent (update_sent (update_sent TimeRecord_init ''2016-06-22 10:00:00.0'')
        ''2016-06-22 09:00:00.0'') = Some ''2016-06-22 09:00:00.0''
   \<and> last_received (update_received (update_received TimeRecord_init ''2016-06-22 10:00:00.0'')
        ''2016-06-22 09:00:00.0'') = Some ''2016-06-22 09:00:00.0''
   \<and> date_time \<lparr>src_ip = ''10.0.0.1'', dest_ip = ''10.0.0.2'', length_field = 100,
                 date = ''2016-06-22'', time = ''10:00:00.0''\<rparr> \<noteq> []"
proof -
  let ?t = "''2016-06-22 10:00:00.0''"
  let ?cs = "[UpdateSent ''2016-06-22 09:00:00.0'', UpdateReceived ''2016-06-22 11:00:00.0'']"
  have unset: "first_sent TimeRecord_init = None \<and> first_received TimeRecord_init = None"
    by (simp add: TimeRecord_init_def)
  have ne: "?t \<noteq> []" by simp
  have "first_sent (time_calls TimeRecord_init (UpdateSent ?t # ?cs)) = Some ?t
      \<and> first_received (time_calls TimeRecord_init (UpdateReceived ?t # ?cs)) = Some ?t"
    using first_kept_last_overwritten [where self = TimeRecord_init and t = ?t and cs = ?cs
        and before = "[]"] unset ne
    by simp
  moreover have "last_sent (update_sent (update_sent TimeRecord_init ?t) ''2016-06-22 09:00:00.0'')
        = Some ''2016-06-22 09:00:00.0''
      \<and> last_received (update_received (update_received TimeRecord_init ?t)
          ''2016-06-22 09:00:00.0'') = Some ''2016-06-22 09:00:00.0''"
    using first_kept_last_overwritten [where self = "update_sent TimeRecord_init ?t"
        and t = "''2016-06-22 09:00:00.0''"]
      first_kept_last_overwritten [where self = "update_received TimeRecord_init ?t"
        and t = "''2016-06-22 09:00:00.0''"]
    by simp
  moreover have "date_time \<lparr>src_ip = ''10.0.0.1'', dest_ip = ''10.0.0.2'', length_field = 100,
                 date = ''2016-06-22'', time = ''10:00:00.0''\<rparr> \<noteq> []"
    using first_kept_last_overwritten
      [where p = "\<lparr>src_ip = ''10.0.0.1'', dest_ip = ''10.0.0.2'', length_field = 100,
                 date = ''2016-06-22'', time = ''10:00:00.0''\<rparr>"]
    by simp
  ultimately show ?thesis by simp
qed

text \<open>
  Claim C7. \<open>get_mean_packet_len\<close> returns the arithmetic mean of all entries of
  \<open>packet_lengths\<close> and fails with \<open>StatisticsError\<close> when the list is empty. On a
  node built by \<open>add_pcap_record\<close> calls the entries are the lengths of all calls,
  sent and received alike: the mean is the sum of the lengths of all calls over the
  number of calls.
\<close>

theorem mean_of_all_lengths:
  "get_mean_packet_len self =
     (if packet_lengths self = [] then Inl StatisticsError
      else Inr (real_of_int (sum_list (packet_lengths self))
                / real (length (packet_lengths self))))
   \<and> get_mean_packet_len (record_calls (MachineNode_init a) cs) =
     (if cs = [] then Inl StatisticsError
      else Inr (real_of_int (sum_list (map fst cs)) / real (length cs)))"
  by (simp add: get_mean_packet_len_def statistics_mean_def packet_lengths_record_calls
      MachineNode_init_def)

text \<open>
  Claim C8, as the code has it. From an empty flow record, with \<open>network_machines\<close>
  holding two addresses \<open>a\<close> and \<open>b\<close> and a third address \<open>c\<close> outside, the three
  records \<open>a \<rightarrow> b\<close> of length 100, \<open>a \<rightarrow> b\<close> of length 200 and \<open>c \<rightarrow> a\<close> of length 50
  leave a node for \<open>a\<close> with 3 packets and mean length \<open>350 / 3\<close>, a node for \<open>b\<close>
  with 2 packets, and no node for \<open>c\<close>. The mean is 116.67 after rounding to two
  decimals, not before.
\<close>

theorem scenario_three_events:
  assumes "a \<noteq> b" and "a \<noteq> c" and "b \<noteq> c"
  shows "(let network_machines = [a, b];
           flow1 = analyze_pcap network_machines
             \<lparr>src_ip = a, dest_ip = b, length_field = 100, date = d1, time = t1\<rparr>
             FlowRecord_init;
           flow2 = analyze_pcap network_machines
             \<lparr>src_ip = a, dest_ip = b, length_field = 200, date = d2, time = t2\<rparr> flow1;
           flow3 = analyze_pcap network_machines
             \<lparr>src_ip = c, dest_ip = a, length_field = 50, date = d3, time = t3\<rparr> flow2
         in map_option num_packets (fst (get_machine_node flow3 a)) = Some 3
            \<and> map_option get_mean_packet_len (fst (get_machine_node flow3 a))
                = Some (Inr (350 / 3))
            \<and> map_option num_packets (fst (get_machine_node flow3 b)) = Some 2
            \<and> fst (get_machine_node flow3 c) = None)
         \<and> \<bar>(350 / 3 :: real) - 116.67\<bar> < 0.005"
  using assms
  by (simp add: Let_def analyze_pcap_def update_def FlowRecord_init_def get_machine_node_def
      get_mean_packet_len_def statistics_mean_def MachineNode_init_def)

theorem scenario_three_events_witness:
  "''A'' \<noteq> ''B'' \<and> ''A'' \<noteq> ''C'' \<and> ''B'' \<noteq> ''C''
   \<and> (let network_machines = [''A'', ''B''];
           flow1 = analyze_pcap network_machines
             \<lparr>src_ip = ''A'', dest_ip = ''B'', length_field = 100,
              date = ''2016-06-22'', time = ''10:00:00.0''\<rparr>
             FlowRecord_init;
           flow2 = analyze_pcap network_machines
             \<lparr>src_ip = ''A'', dest_ip = ''B'', length_field = 200,
              date = ''2016-06-22'', time = ''10:00:01.0''\<rparr> flow1;
           flow3 = analyze_pcap network_machines
             \<lparr>src_ip = ''C'', dest_ip = ''A'', length_field = 50,
              date = ''2016-06-22'', time = ''10:00:02.0''\<rparr> flow2
         in map_option num_packets (fst (get_machine_node flow3 ''A'')) = Some 3
            \<and> map_option get_mean_packet_len (fst (get_machine_node flow3 ''A''))
                = Some (Inr (350 / 3))
            \<and> map_option num_packets (fst (get_machine_node flow3 ''B'')) = Some 2
            \<and> fst (get_machine_node flow3 ''C'') = None)"
proof -
  have d: "''A'' \<noteq> ''B''" "''A'' \<noteq> ''C''" "''B'' \<noteq> ''C''" by simp_all
  from scenario_three_events [OF d, of "''2016-06-22''" "''10:00:00.0''" "''2016-06-22''"
      "''10:00:01.0''" "''2016-06-22''" "''10:00:02.0''"] d
  show ?thesis by (intro conjI) (rule d | erule conjunct1)+
qed

text \<open>
  Claim C8 as stated fails in the value of the mean: for the lengths 100, 200 and 50 it
  is \<open>350 / 3\<close>, which is not 116.67.
\<close>

theorem scenario_mean_counterexample:
  "map_option get_mean_packet_len
     (fst (get_machine_node
        (analyze_pcap [''A'', ''B'']
           \<lparr>src_ip = ''C'', dest_ip = ''A'', length_field = 50,
            date = ''2016-06-22'', time = ''10:00:02.0''\<rparr>
           (analyze_pcap [''A'', ''B'']
              \<lparr>src_ip = ''A'', dest_ip = ''B'', length_field = 200,
               date = ''2016-06-22'', time = ''10:00:01.0''\<rparr>
              (analyze_pcap [''A'', ''B'']
                 \<lparr>src_ip = ''A'', dest_ip = ''B'', length_field = 100,
                  date = ''2016-06-22'', time = ''10:00:00.0''\<rparr>
                 FlowRecord_init))) ''A''))
   \<noteq> Some (Inr 116.67)"
  by (simp add: Let_def analyze_pcap_def update_def FlowRecord_init_def get_machine_node_def
      get_mean_packet_len_def statistics_mean_def MachineNode_init_def)

text \<open>
  Claim C9. \<open>update\<close> with \<open>s_in_net\<close> and \<open>d_in_net\<close> both false returns the flow
  record as it was: no node is created and no node is changed. \<open>get_machine_node\<close>
  returns \<open>None\<close> for an address that is not registered and the node for one that is,
  and leaves the flow record as it was in both cases.
\<close>

theorem no_in_network_endpoint_no_change:
  "update self src_addr False dest_addr False len pcap = self
   \<and> snd (get_machine_node self addr) = self
   \<and> (machines self addr = None \<longrightarrow> fst (get_machine_node self addr) = None)
   \<and> (\<forall>n. machines self addr = Some n \<longrightarrow> fst (get_machine_node self addr) = Some n)"
  by (simp add: update_neither get_machine_node_def split: option.split)

theorem no_in_network_endpoint_no_change_witness:
  "update \<lparr>machines = [''10.0.0.1'' \<mapsto> MachineNode_init ''10.0.0.1'']\<rparr>
      ''8.8.8.8'' False ''9.9.9.9'' False 60 None
     = \<lparr>machines = [''10.0.0.1'' \<mapsto> MachineNode_init ''10.0.0.1'']\<rparr>
   \<and> get_machine_node \<lparr>machines = [''10.0.0.1'' \<mapsto> MachineNode_init ''10.0.0.1'']\<rparr>
        ''10.0.0.9''
     = (None, \<lparr>machines = [''10.0.0.1'' \<mapsto> MachineNode_init ''10.0.0.1'']\<rparr>)
   \<and> get_machine_node \<lparr>machines = [''10.0.0.1'' \<mapsto> MachineNode_init ''10.0.0.1'']\<rparr>
        ''10.0.0.1''
     = (Some (MachineNode_init ''10.0.0.1''),
        \<lparr>machines = [''10.0.0.1'' \<mapsto> MachineNode_init ''10.0.0.1'']\<rparr>)"
proof -
  let ?flow = "\<lparr>machines = [''10.0.0.1'' \<mapsto> MachineNode_init ''10.0.0.1'']\<rparr>"
  have "update ?flow ''8.8.8.8'' False ''9.9.9.9'' False 60 None = ?flow"
    using no_in_network_endpoint_no_change [of ?flow "''8.8.8.8''" "''9.9.9.9''" 60 None]
    by simp
  moreover have "get_machine_node ?flow ''10.0.0.9'' = (None, ?flow)"
    using no_in_network_endpoint_no_change [where self = ?flow and addr = "''10.0.0.9''"]
    by (simp add: prod_eq_iff)
  moreover have "get_machine_node ?flow ''10.0.0.1'' = (Some (MachineNode_init ''10.0.0.1''), ?flow)"
    using no_in_network_endpoint_no_change [where self = ?flow and addr = "''10.0.0.1''"]
    by (simp add: prod_eq_iff)
  ultimately show ?thesis by (intro conjI)
qed

text \<open>
  Claim C10. A call of \<open>add_pcap_record\<close> with \<open>pcap = None\<close> adds one to
  \<open>num_packets\<close>, appends the length to \<open>packet_lengths\<close> and adds one to the count
  of \<open>addr\<close> in the table of its direction (\<open>machines_received_from\<close> when
  \<open>receiving\<close>, \<open>machines_sent_to\<close> otherwise), leaving every other count and the
  other table as they were; the \<open>TimeRecord\<close> of the node is unchanged. With a pcap
  record the time string of the record goes to \<open>update_received\<close> or \<open>update_sent\<close>.
\<close>

theorem add_pcap_record_without_pcap:
  "num_packets (add_pcap_record self len addr receiving None) = num_packets self + 1
   \<and> packet_lengths (add_pcap_record self len addr receiving None) = packet_lengths self @ [len]
   \<and> (if receiving then
         frequency (machines_received_from (add_pcap_record self len addr receiving None)) k
           = frequency (machines_received_from self) k + (if k = addr then 1 else 0)
         \<and> machines_sent_to (add_pcap_record self len addr receiving None)
           = machines_sent_to self
       else
         frequency (machines_sent_to (add_pcap_record self len addr receiving None)) k
           = frequency (machines_sent_to self) k + (if k = addr then 1 else 0)
         \<and> machines_received_from (add_pcap_record self len addr receiving None)
           = machines_received_from self)
   \<and> machine_addr (add_pcap_record self len addr receiving None) = machine_addr self
   \<and> time_record (add_pcap_record self len addr receiving None) = time_record self
   \<and> time_record (add_pcap_record self len addr receiving (Some p))
       = (if receiving then update_received (time_record self) (date_time p)
          else update_sent (time_record self) (date_time p))"
  by (simp add: frequency_increment)

end
